theory Spec2Isabelle
  imports Main
begin

section \<open>Integers, points and rectangles\<close>

text \<open>
  Coordinates, sizes, percentages and cell counts are Go values of type \<^verbatim>\<open>int\<close>, whose
  width (32 or 64 bits) is left to the implementation. They are modelled as the integers
  of HOL: every quantity here counts cells of a terminal, and no statement below is about
  the wrap-around of the machine representation, so the model is the program on all
  inputs whose intermediate results stay within the width. What is kept of Go's
  arithmetic is the rounding of \<^verbatim>\<open>/\<close> (towards zero) and the run-time panic of a
  division by zero.
\<close>

definition quo :: "int \<Rightarrow> int \<Rightarrow> int" where
  "quo a b = sgn a * sgn b * (\<bar>a\<bar> div \<bar>b\<bar>)"

datatype panic = DivideByZero | NilDereference


text \<open>
  \<^verbatim>\<open>image.Point\<close> and \<^verbatim>\<open>image.Rectangle\<close> of the Go standard library, with the
  functions of that package the source calls: \<^verbatim>\<open>image.ZP\<close>, \<^verbatim>\<open>image.ZR\<close>,
  \<^verbatim>\<open>Rectangle.Dx\<close>, \<^verbatim>\<open>Rectangle.Dy\<close> and \<^verbatim>\<open>image.Rect\<close>, which orders the two
  corners it is given. Comparing two rectangles with \<^verbatim>\<open>==\<close> compares the four
  integers.
\<close>

record Point =
  X :: int
  Y :: int

record Rectangle =
  Min_pt :: Point
  Max_pt :: Point

definition ZP :: Point where
  "ZP = \<lparr>X = 0, Y = 0\<rparr>"

definition ZR :: Rectangle where
  "ZR = \<lparr>Min_pt = ZP, Max_pt = ZP\<rparr>"

definition Dx :: "Rectangle \<Rightarrow> int" where
  "Dx r = X (Max_pt r) - X (Min_pt r)"

definition Dy :: "Rectangle \<Rightarrow> int" where
  "Dy r = Y (Max_pt r) - Y (Min_pt r)"

definition Rect :: "int \<Rightarrow> int \<Rightarrow> int \<Rightarrow> int \<Rightarrow> Rectangle" where
  "Rect x0 y0 x1 y1 =
     (let (x0', x1') = (if x0 > x1 then (x1, x0) else (x0, x1));
          (y0', y1') = (if y0 > y1 then (y1, y0) else (y0, y1))
      in \<lparr>Min_pt = \<lparr>X = x0', Y = y0'\<rparr>, Max_pt = \<lparr>X = x1', Y = y1'\<rparr>\<rparr>)"


section \<open>Errors\<close>

text \<open>
  Every error of the package is built by \<^verbatim>\<open>fmt.Errorf\<close> from a format string and its
  arguments; the value is kept as that pair, unformatted. The specification calls these
  errors InvalidArgument. A Go result \<^verbatim>\<open>(value, err)\<close> is a pair whose second
  component is \<open>None\<close> for \<^verbatim>\<open>nil\<close>.
\<close>

datatype fmt_arg = ArgInt int | ArgStr string | ArgPoint Point

datatype error = Errorf string "fmt_arg list"

section \<open>Package area\<close>





text \<open>
  Modelled from the spec: \<^verbatim>\<open>numbers.MinMaxInts\<close>, the third missing helper, selects the
  smallest and the largest of the integers it is given. The source only passes it
  two-element slices; the result on the empty slice is not described and is set to
  \<open>(0, 0)\<close>.
\<close>

fun MinMaxInts :: "int list \<Rightarrow> int \<times> int" where
  "MinMaxInts [] = (0, 0)"
| "MinMaxInts (v # vs) = (fold min vs v, fold max vs v)"

text \<open>
  \<^verbatim>\<open>HSplit\<close> and \<^verbatim>\<open>VSplit\<close> return two rectangles and an error. The divisor of their
  one division is the constant 100, so that no panic can arise.
\<close>

definition HSplit :: "Rectangle \<Rightarrow> int \<Rightarrow> Rectangle \<times> Rectangle \<times> error option" where
  "HSplit area heightPerc =
     (let min_v = 0; max_v = 100 in
      if heightPerc < min_v \<or> heightPerc > max_v
      then (ZR, ZR,
            Some (Errorf ''invalid heightPerc %d, must be in range %d <= heightPerc <= %d''
                    [ArgInt heightPerc, ArgInt min_v, ArgInt max_v]))
      else
        let height = quo (Dy area * heightPerc) 100;
            top = Rect (X (Min_pt area)) (Y (Min_pt area))
                       (X (Max_pt area)) (Y (Min_pt area) + height);
            top = (if Dy top = 0 then ZR else top);
            bottom = Rect (X (Min_pt area)) (Y (Min_pt area) + height)
                          (X (Max_pt area)) (Y (Max_pt area));
            bottom = (if Dy bottom = 0 then ZR else bottom)
        in (top, bottom, None))"

definition VSplit :: "Rectangle \<Rightarrow> int \<Rightarrow> Rectangle \<times> Rectangle \<times> error option" where
  "VSplit area widthPerc =
     (let min_v = 0; max_v = 100 in
      if widthPerc < min_v \<or> widthPerc > max_v
      then (ZR, ZR,
            Some (Errorf ''invalid widthPerc %d, must be in range %d <= widthPerc <= %d''
                    [ArgInt widthPerc, ArgInt min_v, ArgInt max_v]))
      else
        let width = quo (Dx area * widthPerc) 100;
            left = Rect (X (Min_pt area)) (Y (Min_pt area))
                        (X (Min_pt area) + width) (Y (Max_pt area));
            left = (if Dx left = 0 then ZR else left);
            right = Rect (X (Min_pt area) + width) (Y (Min_pt area))
                         (X (Max_pt area)) (Y (Max_pt area));
            right = (if Dx right = 0 then ZR else right)
        in (left, right, None))"



text \<open>
  The loops that open \<^verbatim>\<open>Shrink\<close> and \<^verbatim>\<open>ShrinkPercent\<close> run over the named arguments in
  the order of the slice literal and return at the first value that is out of range.
\<close>

fun Shrink_validate :: "(string \<times> int) list \<Rightarrow> error option" where
  "Shrink_validate [] = None"
| "Shrink_validate ((name, v) # vs) =
     (let min_v = 0 in
      if v < min_v
      then Some (Errorf ''invalid %s(%d), must be in range %d <= value''
                   [ArgStr name, ArgInt v, ArgInt min_v])
      else Shrink_validate vs)"

definition Shrink :: "Rectangle \<Rightarrow> int \<Rightarrow> int \<Rightarrow> int \<Rightarrow> int \<Rightarrow> Rectangle \<times> error option" where
  "Shrink area topCells rightCells bottomCells leftCells =
     (case Shrink_validate [(''topCells'', topCells), (''rightCells'', rightCells),
                            (''bottomCells'', bottomCells), (''leftCells'', leftCells)] of
        Some err \<Rightarrow> (ZR, Some err)
      | None \<Rightarrow>
          (let shrinked = area;
               shrinked = shrinked\<lparr>Min_pt := (Min_pt shrinked)
                 \<lparr>X := fst (MinMaxInts [X (Min_pt shrinked) + leftCells, X (Max_pt shrinked)])\<rparr>\<rparr>;
               shrinked = shrinked\<lparr>Max_pt := (Max_pt shrinked)
                 \<lparr>X := snd (MinMaxInts [X (Max_pt shrinked) - rightCells, X (Min_pt shrinked)])\<rparr>\<rparr>;
               shrinked = shrinked\<lparr>Min_pt := (Min_pt shrinked)
                 \<lparr>Y := fst (MinMaxInts [Y (Min_pt shrinked) + topCells, Y (Max_pt shrinked)])\<rparr>\<rparr>;
               shrinked = shrinked\<lparr>Max_pt := (Max_pt shrinked)
                 \<lparr>Y := snd (MinMaxInts [Y (Max_pt shrinked) - bottomCells, Y (Min_pt shrinked)])\<rparr>\<rparr>
           in if Dx shrinked = 0 \<or> Dy shrinked = 0 then (ZR, None) else (shrinked, None)))"

fun ShrinkPercent_validate :: "(string \<times> int) list \<Rightarrow> error option" where
  "ShrinkPercent_validate [] = None"
| "ShrinkPercent_validate ((name, v) # vs) =
     (let min_v = 0; max_v = 100 in
      if v < min_v \<or> v > max_v
      then Some (Errorf ''invalid %s(%d), must be in range %d <= value <= %d''
                   [ArgStr name, ArgInt v, ArgInt min_v, ArgInt max_v])
      else ShrinkPercent_validate vs)"

definition ShrinkPercent ::
    "Rectangle \<Rightarrow> int \<Rightarrow> int \<Rightarrow> int \<Rightarrow> int \<Rightarrow> Rectangle \<times> error option" where
  "ShrinkPercent area topPerc rightPerc bottomPerc leftPerc =
     (case ShrinkPercent_validate [(''topPerc'', topPerc), (''rightPerc'', rightPerc),
                                   (''bottomPerc'', bottomPerc), (''leftPerc'', leftPerc)] of
        Some err \<Rightarrow> (ZR, Some err)
      | None \<Rightarrow>
          (let top = quo (Dy area * topPerc) 100;
               bottom = quo (Dy area * bottomPerc) 100;
               right = quo (Dx area * rightPerc) 100;
               left = quo (Dx area * leftPerc) 100
           in Shrink area top right bottom left))"

section \<open>Package table: cells and their options\<close>

text \<open>
  Modelled from the spec: the type \<^verbatim>\<open>align.Horizontal\<close>. The package \<^verbatim>\<open>align\<close> is not
  among the source files covered here; the specification gives the horizontal
  alignments left, center and right.
\<close>

datatype Horizontal = HorizontalLeft | HorizontalCenter | HorizontalRight

text \<open>
  Modelled from the spec: the type \<^verbatim>\<open>align.Vertical\<close>, of the same missing package,
  with the vertical alignments top, middle and bottom.
\<close>

datatype Vertical = VerticalTop | VerticalMiddle | VerticalBottom

text \<open>
  Modelled from the spec: the type \<^verbatim>\<open>wrap.Mode\<close> of the missing package \<^verbatim>\<open>wrap\<close>. The
  specification gives the wrap modes "trim", the default, and "wrap at word
  boundaries", which the source calls \<^verbatim>\<open>wrap.AtWords\<close>.
\<close>

datatype Mode = Never | AtWords

text \<open>
  Modelled from the spec: the struct \<^verbatim>\<open>hierarchicalOptions\<close>, whose declaration is
  missing too. It is a record of fields that are either unset or set to a value; the
  field names are those the nine setters assign to. A pointer field that is \<^verbatim>\<open>nil\<close>
  is \<open>None\<close>; the slice \<^verbatim>\<open>cellOpts\<close> is a list, empty when the slice is \<^verbatim>\<open>nil\<close>.
  The types \<^verbatim>\<open>Data\<close> and \<^verbatim>\<open>cell.Option\<close> stay abstract: they are the type
  variables \<open>'d\<close> and \<open>'o\<close>.
\<close>

record 'o hierarchicalOptions =
  cellOpts :: "'o list"
  height :: "int option"
  horizontalPadding :: "int option"
  verticalPadding :: "int option"
  alignHorizontal :: "Horizontal option"
  alignVertical :: "Vertical option"
  wrapMode :: "Mode option"

text \<open>
  The struct \<^verbatim>\<open>Cell\<close>. Its field \<^verbatim>\<open>hierarchical\<close> is a pointer: \<open>None\<close> is the
  \<^verbatim>\<open>nil\<close> pointer, and a cell owns the record its pointer refers to (the constructor
  allocates a fresh one, and nothing in the source copies the pointer).
\<close>

record ('d, 'o) Cell =
  data :: "'d list"
  colSpan :: int
  rowSpan :: int
  hierarchical :: "'o hierarchicalOptions option"

text \<open>
  A \<^verbatim>\<open>CellOption\<close> is a closure built by one of nine functions. It is represented by
  the name of the function that built it together with the argument the closure has
  captured, and the method \<^verbatim>\<open>set\<close> runs the body of the closure on a cell. The seven
  bodies that assign through \<^verbatim>\<open>c.hierarchical\<close> panic on a \<^verbatim>\<open>nil\<close> pointer. The
  predicates \<open>is_CellColSpan\<close> to \<open>is_CellWrapAtWords\<close> tell which function built an option.
\<close>

datatype 'o CellOption =
    is_CellColSpan: CellColSpan int
  | is_CellRowSpan: CellRowSpan int
  | is_CellOpts: CellOpts "'o list"
  | is_CellHeight: CellHeight int
  | is_CellHorizontalPadding: CellHorizontalPadding int
  | is_CellVerticalPadding: CellVerticalPadding int
  | is_CellAlignHorizontal: CellAlignHorizontal Horizontal
  | is_CellAlignVertical: CellAlignVertical Vertical
  | is_CellWrapAtWords: CellWrapAtWords

fun set_opt :: "'o CellOption \<Rightarrow> ('d, 'o) Cell \<Rightarrow> panic + ('d, 'o) Cell" where
  "set_opt (CellColSpan cols) c = Inr (c\<lparr>colSpan := cols\<rparr>)"
| "set_opt (CellRowSpan rows) c = Inr (c\<lparr>rowSpan := rows\<rparr>)"
| "set_opt (CellOpts opts) c =
     (case hierarchical c of
        None \<Rightarrow> Inl NilDereference
      | Some h \<Rightarrow> Inr (c\<lparr>hierarchical := Some (h\<lparr>cellOpts := opts\<rparr>)\<rparr>))"
| "set_opt (CellHeight n) c =
     (case hierarchical c of
        None \<Rightarrow> Inl NilDereference
      | Some h \<Rightarrow> Inr (c\<lparr>hierarchical := Some (h\<lparr>height := Some n\<rparr>)\<rparr>))"
| "set_opt (CellHorizontalPadding cells) c =
     (case hierarchical c of
        None \<Rightarrow> Inl NilDereference
      | Some h \<Rightarrow> Inr (c\<lparr>hierarchical := Some (h\<lparr>horizontalPadding := Some cells\<rparr>)\<rparr>))"
| "set_opt (CellVerticalPadding cells) c =
     (case hierarchical c of
        None \<Rightarrow> Inl NilDereference
      | Some h \<Rightarrow> Inr (c\<lparr>hierarchical := Some (h\<lparr>verticalPadding := Some cells\<rparr>)\<rparr>))"
| "set_opt (CellAlignHorizontal a) c =
     (case hierarchical c of
        None \<Rightarrow> Inl NilDereference
      | Some h \<Rightarrow> Inr (c\<lparr>hierarchical := Some (h\<lparr>alignHorizontal := Some a\<rparr>)\<rparr>))"
| "set_opt (CellAlignVertical a) c =
     (case hierarchical c of
        None \<Rightarrow> Inl NilDereference
      | Some h \<Rightarrow> Inr (c\<lparr>hierarchical := Some (h\<lparr>alignVertical := Some a\<rparr>)\<rparr>))"
| "set_opt CellWrapAtWords c =
     (case hierarchical c of
        None \<Rightarrow> Inl NilDereference
      | Some h \<Rightarrow> (let wm = AtWords in Inr (c\<lparr>hierarchical := Some (h\<lparr>wrapMode := Some wm\<rparr>)\<rparr>)))"

text \<open>The zero value \<^verbatim>\<open>hierarchicalOptions{}\<close>: every field unset.\<close>

definition empty_hierarchicalOptions :: "'o hierarchicalOptions" where
  "empty_hierarchicalOptions =
     \<lparr>cellOpts = [], height = None, horizontalPadding = None, verticalPadding = None,
      alignHorizontal = None, alignVertical = None, wrapMode = None\<rparr>"

text \<open>The loop of \<^verbatim>\<open>NewCellWithOpts\<close> over the options, from the first to the last.\<close>

fun apply_opts :: "'o CellOption list \<Rightarrow> ('d, 'o) Cell \<Rightarrow> panic + ('d, 'o) Cell" where
  "apply_opts [] c = Inr c"
| "apply_opts (opt # opts) c =
     (case set_opt opt c of Inl p \<Rightarrow> Inl p | Inr c' \<Rightarrow> apply_opts opts c')"

definition NewCellWithOpts :: "'d list \<Rightarrow> 'o CellOption list \<Rightarrow> panic + ('d, 'o) Cell" where
  "NewCellWithOpts ds opts =
     apply_opts opts
       \<lparr>data = ds, colSpan = 1, rowSpan = 1, hierarchical = Some empty_hierarchicalOptions\<rparr>"

section \<open>Size and FromSize\<close>




section \<open>HSplit and VSplit\<close>






lemma HSplit_err:
  "snd (snd (HSplit area heightPerc)) \<noteq> None \<longleftrightarrow> heightPerc < 0 \<or> heightPerc > 100"
  by (simp add: HSplit_def Let_def)

lemma VSplit_err:
  "snd (snd (VSplit area widthPerc)) \<noteq> None \<longleftrightarrow> widthPerc < 0 \<or> widthPerc > 100"
  by (simp add: VSplit_def Let_def)



section \<open>Shrink and ShrinkPercent\<close>

lemma Shrink_validate_4:
  "Shrink_validate [(n1, t), (n2, r), (n3, b), (n4, l)] = None \<longleftrightarrow> 0 \<le> t \<and> 0 \<le> r \<and> 0 \<le> b \<and> 0 \<le> l"
  by (simp add: Let_def)

lemma ShrinkPercent_validate_4:
  "ShrinkPercent_validate [(n1, t), (n2, r), (n3, b), (n4, l)] = None \<longleftrightarrow>
     (0 \<le> t \<and> t \<le> 100) \<and> (0 \<le> r \<and> r \<le> 100) \<and> (0 \<le> b \<and> b \<le> 100) \<and> (0 \<le> l \<and> l \<le> 100)"
  by (simp add: Let_def)

lemma Rectangle_literal:
  obtains a b c d where "area = \<lparr>Min_pt = \<lparr>X = a, Y = b\<rparr>, Max_pt = \<lparr>X = c, Y = d\<rparr>\<rparr>"
proof (cases area)
  case (fields mn mx)
  obtain a b where "mn = \<lparr>X = a, Y = b\<rparr>" by (cases mn)
  moreover obtain c d where "mx = \<lparr>X = c, Y = d\<rparr>" by (cases mx)
  ultimately show ?thesis using fields that by simp
qed

lemma Shrink_invalid:
  assumes "t < 0 \<or> r < 0 \<or> b < 0 \<or> l < 0"
  shows "\<exists>e. Shrink area t r b l = (ZR, Some e)"
proof -
  have "Shrink_validate [(''topCells'', t), (''rightCells'', r), (''bottomCells'', b), (''leftCells'', l)] \<noteq> None"
    using assms unfolding Shrink_validate_4 by linarith
  then obtain e where "Shrink_validate [(''topCells'', t), (''rightCells'', r), (''bottomCells'', b), (''leftCells'', l)] = Some e"
    by blast
  then have "Shrink area t r b l = (ZR, Some e)"
    unfolding Shrink_def by simp
  then show ?thesis ..
qed

lemma Shrink_ok:
  fixes area :: Rectangle
  assumes "0 \<le> t" "0 \<le> r" "0 \<le> b" "0 \<le> l"
  defines "minx \<equiv> min (X (Min_pt area) + l) (X (Max_pt area))"
  defines "maxx \<equiv> max (X (Max_pt area) - r) minx"
  defines "miny \<equiv> min (Y (Min_pt area) + t) (Y (Max_pt area))"
  defines "maxy \<equiv> max (Y (Max_pt area) - b) miny"
  shows "Shrink area t r b l =
     (if maxx - minx = 0 \<or> maxy - miny = 0 then ZR
      else \<lparr>Min_pt = \<lparr>X = minx, Y = miny\<rparr>, Max_pt = \<lparr>X = maxx, Y = maxy\<rparr>\<rparr>, None)"
proof -
  have v: "Shrink_validate [(''topCells'', t), (''rightCells'', r), (''bottomCells'', b), (''leftCells'', l)] = None"
    using assms(1-4) unfolding Shrink_validate_4 by simp
  obtain a b c d where A: "area = \<lparr>Min_pt = \<lparr>X = a, Y = b\<rparr>, Max_pt = \<lparr>X = c, Y = d\<rparr>\<rparr>"
    by (rule Rectangle_literal)
  show ?thesis
    unfolding Shrink_def v minx_def maxx_def miny_def maxy_def A
    by (simp add: Let_def Dx_def Dy_def min.commute max.commute)
qed

lemma Shrink_err:
  "snd (Shrink area t r b l) \<noteq> None \<longleftrightarrow> t < 0 \<or> r < 0 \<or> b < 0 \<or> l < 0"
proof (cases "t < 0 \<or> r < 0 \<or> b < 0 \<or> l < 0")
  case True
  from Shrink_invalid [OF this, of area] show ?thesis using True by auto
next
  case False
  then have "snd (Shrink area t r b l) = None" by (simp add: Shrink_ok)
  then show ?thesis using False by simp
qed

lemma Shrink_err_ZR: "snd (Shrink area t r b l) \<noteq> None \<Longrightarrow> fst (Shrink area t r b l) = ZR"
proof -
  assume "snd (Shrink area t r b l) \<noteq> None"
  then have "t < 0 \<or> r < 0 \<or> b < 0 \<or> l < 0" by (simp only: Shrink_err)
  from Shrink_invalid [OF this, of area] show ?thesis by auto
qed

lemma ShrinkPercent_invalid:
  assumes "\<not> ((0 \<le> t \<and> t \<le> 100) \<and> (0 \<le> r \<and> r \<le> 100) \<and> (0 \<le> b \<and> b \<le> 100) \<and> (0 \<le> l \<and> l \<le> 100))"
  shows "\<exists>e. ShrinkPercent area t r b l = (ZR, Some e)"
proof -
  have "ShrinkPercent_validate [(''topPerc'', t), (''rightPerc'', r), (''bottomPerc'', b), (''leftPerc'', l)] \<noteq> None"
    using assms unfolding ShrinkPercent_validate_4 by simp
  then obtain e where "ShrinkPercent_validate [(''topPerc'', t), (''rightPerc'', r), (''bottomPerc'', b), (''leftPerc'', l)] = Some e"
    by blast
  then have "ShrinkPercent area t r b l = (ZR, Some e)"
    unfolding ShrinkPercent_def by simp
  then show ?thesis ..
qed

lemma ShrinkPercent_valid:
  assumes "0 \<le> t \<and> t \<le> 100" "0 \<le> r \<and> r \<le> 100" "0 \<le> b \<and> b \<le> 100" "0 \<le> l \<and> l \<le> 100"
  shows "ShrinkPercent area t r b l =
    Shrink area (quo (Dy area * t) 100) (quo (Dx area * r) 100)
                (quo (Dy area * b) 100) (quo (Dx area * l) 100)"
proof -
  have "ShrinkPercent_validate [(''topPerc'', t), (''rightPerc'', r), (''bottomPerc'', b), (''leftPerc'', l)] = None"
    using assms unfolding ShrinkPercent_validate_4 by simp
  then show ?thesis
    unfolding ShrinkPercent_def by (simp add: Let_def)
qed

lemma ShrinkPercent_err_ZR:
  assumes "snd (ShrinkPercent area t r b l) \<noteq> None"
  shows "fst (ShrinkPercent area t r b l) = ZR"
proof (cases "(0 \<le> t \<and> t \<le> 100) \<and> (0 \<le> r \<and> r \<le> 100) \<and> (0 \<le> b \<and> b \<le> 100) \<and> (0 \<le> l \<and> l \<le> 100)")
  case True
  then have "ShrinkPercent area t r b l =
    Shrink area (quo (Dy area * t) 100) (quo (Dx area * r) 100)
                (quo (Dy area * b) 100) (quo (Dx area * l) 100)"
    by (simp add: ShrinkPercent_valid)
  with assms show ?thesis by (simp add: Shrink_err_ZR)
next
  case False
  from ShrinkPercent_invalid [OF this, of area] show ?thesis by auto
qed





section \<open>The rectangles returned with an error\<close>

text \<open>
  Claim C10. Whenever \<open>HSplit\<close>, \<open>VSplit\<close>, \<open>Shrink\<close> or \<open>ShrinkPercent\<close> returns an
  error, every rectangle returned with it is the zero rectangle: a percentage out of
  range makes \<open>HSplit\<close> and \<open>VSplit\<close> return two zero rectangles, and a negative
  amount or a percentage out of range makes \<open>Shrink\<close> and \<open>ShrinkPercent\<close> return the
  zero rectangle.
\<close>

theorem errors_return_ZR:
  "(heightPerc < 0 \<or> heightPerc > 100 \<longrightarrow> (\<exists>e. HSplit area heightPerc = (ZR, ZR, Some e)))
   \<and> (snd (snd (HSplit area heightPerc)) \<noteq> None \<longrightarrow>
        fst (HSplit area heightPerc) = ZR \<and> fst (snd (HSplit area heightPerc)) = ZR)
   \<and> (widthPerc < 0 \<or> widthPerc > 100 \<longrightarrow> (\<exists>e. VSplit area widthPerc = (ZR, ZR, Some e)))
   \<and> (snd (snd (VSplit area widthPerc)) \<noteq> None \<longrightarrow>
        fst (VSplit area widthPerc) = ZR \<and> fst (snd (VSplit area widthPerc)) = ZR)
   \<and> (t < 0 \<or> r < 0 \<or> b < 0 \<or> l < 0 \<longrightarrow> (\<exists>e. Shrink area t r b l = (ZR, Some e)))
   \<and> (snd (Shrink area t r b l) \<noteq> None \<longrightarrow> fst (Shrink area t r b l) = ZR)
   \<and> (\<not> ((0 \<le> tp \<and> tp \<le> 100) \<and> (0 \<le> rp \<and> rp \<le> 100)
          \<and> (0 \<le> bp \<and> bp \<le> 100) \<and> (0 \<le> lp \<and> lp \<le> 100)) \<longrightarrow>
        (\<exists>e. ShrinkPercent area tp rp bp lp = (ZR, Some e)))
   \<and> (snd (ShrinkPercent area tp rp bp lp) \<noteq> None \<longrightarrow> fst (ShrinkPercent area tp rp bp lp) = ZR)"
proof -
  have h1: "heightPerc < 0 \<or> heightPerc > 100 \<longrightarrow> (\<exists>e. HSplit area heightPerc = (ZR, ZR, Some e))"
    by (simp add: HSplit_def Let_def)
  have h2: "snd (snd (HSplit area heightPerc)) \<noteq> None \<longrightarrow>
        fst (HSplit area heightPerc) = ZR \<and> fst (snd (HSplit area heightPerc)) = ZR"
    using h1 unfolding HSplit_err by auto
  have v1: "widthPerc < 0 \<or> widthPerc > 100 \<longrightarrow> (\<exists>e. VSplit area widthPerc = (ZR, ZR, Some e))"
    by (simp add: VSplit_def Let_def)
  have v2: "snd (snd (VSplit area widthPerc)) \<noteq> None \<longrightarrow>
        fst (VSplit area widthPerc) = ZR \<and> fst (snd (VSplit area widthPerc)) = ZR"
    using v1 unfolding VSplit_err by auto
  note s1 = Shrink_invalid [of t r b l area]
  note s2 = Shrink_err_ZR [of area t r b l]
  note p1 = ShrinkPercent_invalid [of tp rp bp lp area]
  note p2 = ShrinkPercent_err_ZR [of area tp rp bp lp]
  from h1 h2 v1 v2 s1 s2 p1 p2 show ?thesis by blast
qed

theorem errors_return_ZR_witness:
  "(\<exists>e. HSplit \<lparr>Min_pt = \<lparr>X = 0, Y = 0\<rparr>, Max_pt = \<lparr>X = 10, Y = 10\<rparr>\<rparr> 101 = (ZR, ZR, Some e))
   \<and> (\<exists>e. VSplit \<lparr>Min_pt = \<lparr>X = 0, Y = 0\<rparr>, Max_pt = \<lparr>X = 10, Y = 10\<rparr>\<rparr> (- 1) = (ZR, ZR, Some e))
   \<and> (\<exists>e. Shrink \<lparr>Min_pt = \<lparr>X = 0, Y = 0\<rparr>, Max_pt = \<lparr>X = 10, Y = 10\<rparr>\<rparr> 1 (- 2) 3 4 = (ZR, Some e))
   \<and> (\<exists>e. ShrinkPercent \<lparr>Min_pt = \<lparr>X = 0, Y = 0\<rparr>, Max_pt = \<lparr>X = 10, Y = 10\<rparr>\<rparr> 1 2 3 400 = (ZR, Some e))"
  using errors_return_ZR
    [of 101 "\<lparr>Min_pt = \<lparr>X = 0, Y = 0\<rparr>, Max_pt = \<lparr>X = 10, Y = 10\<rparr>\<rparr>" "- 1" 1 "- 2" 3 4 1 2 3 400]
  by simp

section \<open>ExcludeBorder\<close>






section \<open>WithRatio\<close>











section \<open>Totality of the operations\<close>




section \<open>Cells: construction and option setters\<close>

text \<open>
  The loop over the options never meets a \<^verbatim>\<open>nil\<close> pointer: the constructor allocates
  the record of hierarchical options before the first option runs, and no setter
  resets the pointer. No setter assigns to the data either.
\<close>

lemma apply_opts_append:
  "apply_opts (xs @ ys) c = (case apply_opts xs c of Inl p \<Rightarrow> Inl p | Inr c' \<Rightarrow> apply_opts ys c')"
  by (induction xs arbitrary: c) (auto split: sum.splits)

lemma set_opt_total:
  assumes "hierarchical c \<noteq> None"
  shows "\<exists>c'. set_opt opt c = Inr c' \<and> hierarchical c' \<noteq> None \<and> data c' = data c"
  using assms by (cases opt) auto

lemma apply_opts_total:
  "hierarchical c \<noteq> None \<Longrightarrow>
   \<exists>c'. apply_opts opts c = Inr c' \<and> hierarchical c' \<noteq> None \<and> data c' = data c"
proof (induction opts arbitrary: c)
  case Nil
  then show ?case by simp
next
  case (Cons opt opts)
  from set_opt_total [OF Cons.prems, of opt] obtain c1
    where c1: "set_opt opt c = Inr c1" "hierarchical c1 \<noteq> None" "data c1 = data c"
    by blast
  from Cons.IH [OF c1(2)] obtain c2
    where "apply_opts opts c1 = Inr c2" "hierarchical c2 \<noteq> None" "data c2 = data c1"
    by blast
  with c1 show ?case by simp
qed

text \<open>
  A quantity of the cell that no option of the list changes is the same before and
  after the loop.
\<close>

lemma apply_opts_frame:
  assumes "\<And>opt c c'. opt \<in> set opts \<Longrightarrow> set_opt opt c = Inr c' \<Longrightarrow> f c' = f c"
    and "apply_opts opts c = Inr c'"
  shows "f c' = f c"
  using assms
proof (induction opts arbitrary: c)
  case Nil
  then show ?case by simp
next
  case (Cons opt opts)
  from Cons.prems(2) obtain c1 where c1: "set_opt opt c = Inr c1" "apply_opts opts c1 = Inr c'"
    by (auto split: sum.splits)
  have "f c' = f c1"
  proof (rule Cons.IH [OF _ c1(2)])
    show "f a' = f a" if "o' \<in> set opts" "set_opt o' a = Inr a'" for o' a a'
      using that Cons.prems(1) [of o' a a'] by simp
  qed
  moreover have "f c1 = f c" using Cons.prems(1) [OF _ c1(1)] by simp
  ultimately show ?case by simp
qed

lemma set_opt_keeps:
  assumes "set_opt opt c = Inr c'"
  shows "\<not> is_CellColSpan opt \<Longrightarrow> colSpan c' = colSpan c"
    and "\<not> is_CellRowSpan opt \<Longrightarrow> rowSpan c' = rowSpan c"
    and "\<not> is_CellOpts opt \<Longrightarrow> map_option cellOpts (hierarchical c') = map_option cellOpts (hierarchical c)"
    and "\<not> is_CellHeight opt \<Longrightarrow> map_option height (hierarchical c') = map_option height (hierarchical c)"
    and "\<not> is_CellHorizontalPadding opt \<Longrightarrow>
           map_option horizontalPadding (hierarchical c') = map_option horizontalPadding (hierarchical c)"
    and "\<not> is_CellVerticalPadding opt \<Longrightarrow>
           map_option verticalPadding (hierarchical c') = map_option verticalPadding (hierarchical c)"
    and "\<not> is_CellAlignHorizontal opt \<Longrightarrow>
           map_option alignHorizontal (hierarchical c') = map_option alignHorizontal (hierarchical c)"
    and "\<not> is_CellAlignVertical opt \<Longrightarrow>
           map_option alignVertical (hierarchical c') = map_option alignVertical (hierarchical c)"
    and "\<not> is_CellWrapAtWords opt \<Longrightarrow>
           map_option wrapMode (hierarchical c') = map_option wrapMode (hierarchical c)"
  using assms by (cases opt; auto split: option.splits)+

lemma NewCellWithOpts_result:
  "\<exists>c h. NewCellWithOpts ds opts = Inr c \<and> hierarchical c = Some h \<and> data c = ds"
  unfolding NewCellWithOpts_def
  using apply_opts_total
    [of "\<lparr>data = ds, colSpan = 1, rowSpan = 1, hierarchical = Some empty_hierarchicalOptions\<rparr>" opts]
  by auto

lemma NewCellWithOpts_keeps:
  assumes "NewCellWithOpts ds opts = Inr c"
    and "\<And>opt a a'. opt \<in> set opts \<Longrightarrow> set_opt opt a = Inr a' \<Longrightarrow> f a' = f a"
  shows "f c = f \<lparr>data = ds, colSpan = 1, rowSpan = 1, hierarchical = Some empty_hierarchicalOptions\<rparr>"
proof (rule apply_opts_frame)
  show "apply_opts opts
          \<lparr>data = ds, colSpan = 1, rowSpan = 1, hierarchical = Some empty_hierarchicalOptions\<rparr> =
        Inr c"
    using assms(1) by (simp add: NewCellWithOpts_def)
  show "f a' = f a" if "opt \<in> set opts" "set_opt opt a = Inr a'" for opt a a'
    using that by (rule assms(2))
qed

text \<open>
  Claim C7. \<open>NewCellWithOpts\<close> starts from the cell with the given data, \<open>colSpan = 1\<close>,
  \<open>rowSpan = 1\<close> and an empty record of hierarchical options, and applies the options
  in the order of the list: the last option is applied to the cell the options before it
  have built. The later of two options for one field wins: with \<open>CellColSpan 2\<close> and then
  \<open>CellColSpan 3\<close> the cell has \<open>colSpan = 3\<close>, and in general \<open>colSpan\<close> is the
  argument of the last \<open>CellColSpan\<close> of the list. The call always returns a cell, its
  data is the list passed in, and a field that no option of the list sets keeps its
  default: 1 for \<open>colSpan\<close> and \<open>rowSpan\<close>, unset for each hierarchical option.
\<close>

theorem NewCellWithOpts_in_order:
  fixes ds :: "'d list" and opts opts' :: "'o CellOption list"
  shows
  "NewCellWithOpts ds ([] :: 'o CellOption list) =
     Inr \<lparr>data = ds, colSpan = 1, rowSpan = 1, hierarchical = Some empty_hierarchicalOptions\<rparr>
   \<and> NewCellWithOpts ds (opts @ [opt]) =
       (case NewCellWithOpts ds opts of Inl p \<Rightarrow> Inl p | Inr c \<Rightarrow> set_opt opt c)
   \<and> (\<exists>c. NewCellWithOpts ds [CellColSpan 2, CellColSpan 3 :: 'o CellOption] = Inr c \<and> colSpan c = 3)
   \<and> (\<exists>c. NewCellWithOpts ds (opts @ CellColSpan n # opts') = Inr c
          \<and> ((\<forall>opt \<in> set opts'. \<not> is_CellColSpan opt) \<longrightarrow> colSpan c = n))
   \<and> (\<exists>c h. NewCellWithOpts ds opts = Inr c \<and> hierarchical c = Some h
          \<and> data c = ds
          \<and> ((\<forall>opt \<in> set opts. \<not> is_CellColSpan opt) \<longrightarrow> colSpan c = 1)
          \<and> ((\<forall>opt \<in> set opts. \<not> is_CellRowSpan opt) \<longrightarrow> rowSpan c = 1)
          \<and> ((\<forall>opt \<in> set opts. \<not> is_CellOpts opt) \<longrightarrow> cellOpts h = [])
          \<and> ((\<forall>opt \<in> set opts. \<not> is_CellHeight opt) \<longrightarrow> height h = None)
          \<and> ((\<forall>opt \<in> set opts. \<not> is_CellHorizontalPadding opt) \<longrightarrow> horizontalPadding h = None)
          \<and> ((\<forall>opt \<in> set opts. \<not> is_CellVerticalPadding opt) \<longrightarrow> verticalPadding h = None)
          \<and> ((\<forall>opt \<in> set opts. \<not> is_CellAlignHorizontal opt) \<longrightarrow> alignHorizontal h = None)
          \<and> ((\<forall>opt \<in> set opts. \<not> is_CellAlignVertical opt) \<longrightarrow> alignVertical h = None)
          \<and> ((\<forall>opt \<in> set opts. \<not> is_CellWrapAtWords opt) \<longrightarrow> wrapMode h = None)
          \<and> ((\<forall>opt \<in> set opts. is_CellColSpan opt \<or> is_CellRowSpan opt) \<longrightarrow>
                 h = empty_hierarchicalOptions))"
proof (intro conjI)
  let ?c0 = "\<lparr>data = ds, colSpan = 1, rowSpan = 1, hierarchical = Some empty_hierarchicalOptions\<rparr>
               :: ('d, 'o) Cell"
  show "NewCellWithOpts ds ([] :: 'o CellOption list) = Inr ?c0"
    by (simp add: NewCellWithOpts_def)
  show "NewCellWithOpts ds (opts @ [opt]) =
       (case NewCellWithOpts ds opts of Inl p \<Rightarrow> Inl p | Inr c \<Rightarrow> set_opt opt c)"
    by (simp add: NewCellWithOpts_def apply_opts_append split: sum.splits)
  show "\<exists>c. NewCellWithOpts ds [CellColSpan 2, CellColSpan 3 :: 'o CellOption] = Inr c \<and> colSpan c = 3"
    by (simp add: NewCellWithOpts_def)
  show "\<exists>c. NewCellWithOpts ds (opts @ CellColSpan n # opts') = Inr c
          \<and> ((\<forall>opt \<in> set opts'. \<not> is_CellColSpan opt) \<longrightarrow> colSpan c = n)"
  proof -
    obtain c1 :: "('d, 'o) Cell" and h1 where c1: "NewCellWithOpts ds opts = Inr c1" "hierarchical c1 = Some h1"
      using NewCellWithOpts_result [of ds opts] by blast
    let ?c2 = "c1\<lparr>colSpan := n\<rparr>"
    have "hierarchical ?c2 \<noteq> None" using c1(2) by simp
    from apply_opts_total [OF this, of opts'] obtain c3
      where c3: "apply_opts opts' ?c2 = Inr c3" by blast
    have all: "NewCellWithOpts ds (opts @ CellColSpan n # opts') = Inr c3"
      using c1(1) c3 by (simp add: NewCellWithOpts_def apply_opts_append)
    have "colSpan c3 = n" if "\<forall>opt \<in> set opts'. \<not> is_CellColSpan opt"
    proof -
      have "colSpan c3 = colSpan ?c2"
        using that by (intro apply_opts_frame [OF _ c3]) (simp add: set_opt_keeps(1))
      then show ?thesis by simp
    qed
    with all show ?thesis by blast
  qed
  show "\<exists>c h. NewCellWithOpts ds opts = Inr c \<and> hierarchical c = Some h
          \<and> data c = ds
          \<and> ((\<forall>opt \<in> set opts. \<not> is_CellColSpan opt) \<longrightarrow> colSpan c = 1)
          \<and> ((\<forall>opt \<in> set opts. \<not> is_CellRowSpan opt) \<longrightarrow> rowSpan c = 1)
          \<and> ((\<forall>opt \<in> set opts. \<not> is_CellOpts opt) \<longrightarrow> cellOpts h = [])
          \<and> ((\<forall>opt \<in> set opts. \<not> is_CellHeight opt) \<longrightarrow> height h = None)
          \<and> ((\<forall>opt \<in> set opts. \<not> is_CellHorizontalPadding opt) \<longrightarrow> horizontalPadding h = None)
          \<and> ((\<forall>opt \<in> set opts. \<not> is_CellVerticalPadding opt) \<longrightarrow> verticalPadding h = None)
          \<and> ((\<forall>opt \<in> set opts. \<not> is_CellAlignHorizontal opt) \<longrightarrow> alignHorizontal h = None)
          \<and> ((\<forall>opt \<in> set opts. \<not> is_CellAlignVertical opt) \<longrightarrow> alignVertical h = None)
          \<and> ((\<forall>opt \<in> set opts. \<not> is_CellWrapAtWords opt) \<longrightarrow> wrapMode h = None)
          \<and> ((\<forall>opt \<in> set opts. is_CellColSpan opt \<or> is_CellRowSpan opt) \<longrightarrow>
                 h = empty_hierarchicalOptions)"
  proof -
    obtain c :: "('d, 'o) Cell" and h
      where c: "NewCellWithOpts ds opts = Inr c" "hierarchical c = Some h" "data c = ds"
      using NewCellWithOpts_result [of ds opts] by blast
    note keep = NewCellWithOpts_keeps [OF c(1)]
    have 1: "colSpan c = 1" if "\<forall>opt \<in> set opts. \<not> is_CellColSpan opt"
      using keep [of colSpan] that by (simp add: set_opt_keeps(1))
    have 2: "rowSpan c = 1" if "\<forall>opt \<in> set opts. \<not> is_CellRowSpan opt"
      using keep [of rowSpan] that by (simp add: set_opt_keeps(2))
    have 3: "cellOpts h = []" if "\<forall>opt \<in> set opts. \<not> is_CellOpts opt"
      using keep [of "\<lambda>c. map_option cellOpts (hierarchical c)"] that c(2)
      by (simp add: set_opt_keeps(3) empty_hierarchicalOptions_def)
    have 4: "height h = None" if "\<forall>opt \<in> set opts. \<not> is_CellHeight opt"
      using keep [of "\<lambda>c. map_option height (hierarchical c)"] that c(2)
      by (simp add: set_opt_keeps(4) empty_hierarchicalOptions_def)
    have 5: "horizontalPadding h = None" if "\<forall>opt \<in> set opts. \<not> is_CellHorizontalPadding opt"
      using keep [of "\<lambda>c. map_option horizontalPadding (hierarchical c)"] that c(2)
      by (simp add: set_opt_keeps(5) empty_hierarchicalOptions_def)
    have 6: "verticalPadding h = None" if "\<forall>opt \<in> set opts. \<not> is_CellVerticalPadding opt"
      using keep [of "\<lambda>c. map_option verticalPadding (hierarchical c)"] that c(2)
      by (simp add: set_opt_keeps(6) empty_hierarchicalOptions_def)
    have 7: "alignHorizontal h = None" if "\<forall>opt \<in> set opts. \<not> is_CellAlignHorizontal opt"
      using keep [of "\<lambda>c. map_option alignHorizontal (hierarchical c)"] that c(2)
      by (simp add: set_opt_keeps(7) empty_hierarchicalOptions_def)
    have 8: "alignVertical h = None" if "\<forall>opt \<in> set opts. \<not> is_CellAlignVertical opt"
      using keep [of "\<lambda>c. map_option alignVertical (hierarchical c)"] that c(2)
      by (simp add: set_opt_keeps(8) empty_hierarchicalOptions_def)
    have 9: "wrapMode h = None" if "\<forall>opt \<in> set opts. \<not> is_CellWrapAtWords opt"
      using keep [of "\<lambda>c. map_option wrapMode (hierarchical c)"] that c(2)
      by (simp add: set_opt_keeps(9) empty_hierarchicalOptions_def)
    have 10: "h = empty_hierarchicalOptions"
      if a: "\<forall>opt \<in> set opts. is_CellColSpan opt \<or> is_CellRowSpan opt"
    proof -
      have "hierarchical a' = hierarchical a"
        if "opt \<in> set opts" "set_opt opt a = Inr a'" for opt and a a' :: "('d, 'o) Cell"
      proof -
        have "is_CellColSpan opt \<or> is_CellRowSpan opt" using that(1) a by blast
        with that(2) show ?thesis by (cases opt; auto)
      qed
      from keep [of hierarchical, OF this] c(2) show ?thesis by simp
    qed
    show ?thesis
    proof (intro exI conjI impI)
      show "NewCellWithOpts ds opts = Inr c" by (rule c(1))
      show "hierarchical c = Some h" by (rule c(2))
      show "data c = ds" by (rule c(3))
    qed (simp_all only: 1 2 3 4 5 6 7 8 9 10)
  qed
qed

theorem NewCellWithOpts_in_order_witness:
  "(\<exists>c h. NewCellWithOpts [1, 2 :: nat] [CellRowSpan 2, CellHeight 3 :: nat CellOption] = Inr c
          \<and> hierarchical c = Some h \<and> data c = [1, 2] \<and> colSpan c = 1
          \<and> cellOpts h = [] \<and> wrapMode h = None)
   \<and> (\<exists>c. NewCellWithOpts [1, 2 :: nat]
               ([CellRowSpan 2, CellColSpan 7] @ CellColSpan 5 # [CellHeight 3 :: nat CellOption]) = Inr c
          \<and> colSpan c = 5)"
  using NewCellWithOpts_in_order
    [where ds = "[1, 2 :: nat]" and opts = "[CellRowSpan 2, CellHeight 3 :: nat CellOption]"]
    NewCellWithOpts_in_order
    [where ds = "[1, 2 :: nat]" and opts = "[CellRowSpan 2, CellColSpan 7 :: nat CellOption]"
       and n = 5 and opts' = "[CellHeight 3]"]
  by simp blast

text \<open>
  Claim C9. Each of the nine setters writes one field and leaves the others as they
  were. \<open>CellColSpan n\<close> and \<open>CellRowSpan n\<close>, applied to any cell, return the cell with
  \<open>colSpan\<close>, respectively \<open>rowSpan\<close>, set to \<open>n\<close>; the data, the other span and the
  hierarchical options are unchanged. The seven other setters, applied to a cell with
  its record of hierarchical options, return the cell with one field of that record
  set (\<open>cellOpts\<close>, \<open>height\<close>, \<open>horizontalPadding\<close>, \<open>verticalPadding\<close>,
  \<open>alignHorizontal\<close>, \<open>alignVertical\<close>, \<open>wrapMode\<close>) and nothing else changed.
\<close>

theorem setters_write_one_field:
  fixes c :: "('d, 'o) Cell"
  shows
  "(\<exists>c'. set_opt (CellColSpan n) c = Inr c' \<and> c' = c\<lparr>colSpan := n\<rparr>
        \<and> colSpan c' = n \<and> data c' = data c \<and> rowSpan c' = rowSpan c
        \<and> hierarchical c' = hierarchical c)
   \<and> (\<exists>c'. set_opt (CellRowSpan n) c = Inr c' \<and> c' = c\<lparr>rowSpan := n\<rparr>
        \<and> rowSpan c' = n \<and> data c' = data c \<and> colSpan c' = colSpan c
        \<and> hierarchical c' = hierarchical c)
   \<and> (hierarchical c = Some h \<longrightarrow>
        set_opt (CellOpts os) c = Inr (c\<lparr>hierarchical := Some (h\<lparr>cellOpts := os\<rparr>)\<rparr>)
      \<and> set_opt (CellHeight n) c = Inr (c\<lparr>hierarchical := Some (h\<lparr>height := Some n\<rparr>)\<rparr>)
      \<and> set_opt (CellHorizontalPadding n) c =
          Inr (c\<lparr>hierarchical := Some (h\<lparr>horizontalPadding := Some n\<rparr>)\<rparr>)
      \<and> set_opt (CellVerticalPadding n) c =
          Inr (c\<lparr>hierarchical := Some (h\<lparr>verticalPadding := Some n\<rparr>)\<rparr>)
      \<and> set_opt (CellAlignHorizontal ah) c =
          Inr (c\<lparr>hierarchical := Some (h\<lparr>alignHorizontal := Some ah\<rparr>)\<rparr>)
      \<and> set_opt (CellAlignVertical av) c =
          Inr (c\<lparr>hierarchical := Some (h\<lparr>alignVertical := Some av\<rparr>)\<rparr>)
      \<and> set_opt CellWrapAtWords c =
          Inr (c\<lparr>hierarchical := Some (h\<lparr>wrapMode := Some AtWords\<rparr>)\<rparr>))"
  by (simp add: Let_def)

theorem setters_write_one_field_witness:
  "hierarchical \<lparr>data = [1, 2 :: nat], colSpan = 1, rowSpan = 1,
                 hierarchical = Some (empty_hierarchicalOptions :: nat hierarchicalOptions)\<rparr> =
     Some empty_hierarchicalOptions
   \<and> set_opt (CellHeight 4)
        \<lparr>data = [1, 2 :: nat], colSpan = 1, rowSpan = 1,
         hierarchical = Some (empty_hierarchicalOptions :: nat hierarchicalOptions)\<rparr> =
       Inr \<lparr>data = [1, 2], colSpan = 1, rowSpan = 1,
            hierarchical = Some (empty_hierarchicalOptions\<lparr>height := Some 4\<rparr>)\<rparr>"
  using setters_write_one_field
    [where c = "\<lparr>data = [1, 2 :: nat], colSpan = 1, rowSpan = 1,
                 hierarchical = Some (empty_hierarchicalOptions :: nat hierarchicalOptions)\<rparr>"
       and h = empty_hierarchicalOptions and n = 4]
  by simp

end
